theory Spec2Isabelle
  imports Main "HOL-Library.Sublist" "HOL-Library.AList" "HOL-Library.Char_ord"
    "HOL-Library.List_Lexorder"
begin

section \<open>Python values and the operations the sources use on them\<close>

text \<open>
  The exceptions that the modelled code can raise. \<open>Unmodelled\<close> marks a call whose
  outcome lies outside the model (a library call on a value of the wrong type); no theorem
  below states anything about a run that reaches it.
\<close>

datatype py_error =
    JSONDecodeError | OSError | UnicodeDecodeError
  | TypeError | KeyError | AttributeError | Unmodelled

text \<open>
  What \<open>json.load\<close> returns: \<open>None\<close>, a bool, an int, a str, a list or a dict with
  str keys. A dict is an association list in insertion order. Floats are left out: no
  branch of the sources tells a float from an int.
\<close>

datatype json =
    JNull | JBool bool | JInt int | JStr string
  | JList "json list" | JDict "(string \<times> json) list"

definition bindE :: "'e + 'a \<Rightarrow> ('a \<Rightarrow> 'e + 'b) \<Rightarrow> 'e + 'b" where
  "bindE m f = (case m of Inl e \<Rightarrow> Inl e | Inr x \<Rightarrow> f x)"

text \<open>Truth value of a Python object in \<open>if v:\<close>.\<close>

fun truthy :: "json \<Rightarrow> bool" where
  "truthy JNull = False"
| "truthy (JBool b) = b"
| "truthy (JInt i) = (i \<noteq> 0)"
| "truthy (JStr s) = (s \<noteq> [])"
| "truthy (JList xs) = (xs \<noteq> [])"
| "truthy (JDict d) = (d \<noteq> [])"

text \<open>\<open>k in v\<close> for a str \<open>k\<close>: key of a dict, substring of a str, element of a list.\<close>

fun py_contains :: "string \<Rightarrow> json \<Rightarrow> py_error + bool" where
  "py_contains k (JDict d) = Inr (k \<in> set (map fst d))"
| "py_contains k (JStr s) = Inr (sublist k s)"
| "py_contains k (JList xs) = Inr (JStr k \<in> set xs)"
| "py_contains k JNull = Inl TypeError"
| "py_contains k (JBool b) = Inl TypeError"
| "py_contains k (JInt i) = Inl TypeError"

text \<open>\<open>v[k]\<close> for a str \<open>k\<close>.\<close>

fun py_getitem :: "json \<Rightarrow> string \<Rightarrow> py_error + json" where
  "py_getitem (JDict d) k = (case map_of d k of None \<Rightarrow> Inl KeyError | Some x \<Rightarrow> Inr x)"
| "py_getitem v k = Inl TypeError"

text \<open>\<open>v[k] = x\<close> for a str \<open>k\<close>: an existing key keeps its place, a new one goes last.\<close>

fun py_setitem :: "json \<Rightarrow> string \<Rightarrow> json \<Rightarrow> py_error + json" where
  "py_setitem (JDict d) k x = Inr (JDict (AList.update k x d))"
| "py_setitem v k x = Inl TypeError"

text \<open>\<open>v.get(k, default)\<close>: only a dict has the method.\<close>

fun py_get :: "json \<Rightarrow> string \<Rightarrow> json \<Rightarrow> py_error + json" where
  "py_get (JDict d) k dflt = Inr (case map_of d k of None \<Rightarrow> dflt | Some x \<Rightarrow> x)"
| "py_get v k dflt = Inl AttributeError"

text \<open>
  \<open>dict(v)\<close>: a copy of a dict, the empty dict for an empty list or str, \<open>TypeError\<close> for
  a value that is not iterable. A non-empty list or str is read as a sequence of pairs,
  which is outside the model.
\<close>

fun py_dict :: "json \<Rightarrow> py_error + json" where
  "py_dict (JDict d) = Inr (JDict d)"
| "py_dict (JList xs) = (if xs = [] then Inr (JDict []) else Inl Unmodelled)"
| "py_dict (JStr s) = (if s = [] then Inr (JDict []) else Inl Unmodelled)"
| "py_dict JNull = Inl TypeError"
| "py_dict (JBool b) = Inl TypeError"
| "py_dict (JInt i) = Inl TypeError"

section \<open>The platform: libraries and operating system\<close>

text \<open>
  The sources call into libraries that are not part of the repository. They are
  parameters of the model: the \<open>json\<close> module (\<open>json_load\<close> on the text of a file,
  \<open>json_dump\<close> producing it; \<open>'f\<close> is the type of file contents), \<open>str.lower\<close>, and
  \<open>win32gui\<close>: whether it could be imported (\<open>HAS_WIN32\<close>) and what
  \<open>GetWindowText(GetForegroundWindow())\<close> gives at the moment of the call, a title or an
  exception. \<open>writable\<close> says whether the configuration file can be written: whether
  \<open>mkdir\<close> of its directory, \<open>open\<close> for writing and the write itself succeed.
\<close>

record 'f platform =
  json_load :: "'f \<Rightarrow> py_error + json"
  json_dump :: "json \<Rightarrow> 'f"
  lower :: "string \<Rightarrow> string"
  HAS_WIN32 :: bool
  foreground_title :: "py_error + string"
  writable :: bool

section \<open>config\_manager.py\<close>

definition DEFAULT_SETTINGS :: json where
  "DEFAULT_SETTINGS = JDict
     [(''restore_mouse_position'', JBool True),
      (''require_foreground_window'', JBool False),
      (''target_window_title'', JStr ''Valeton'')]"

definition DEFAULT_CONFIG :: json where
  "DEFAULT_CONFIG = JDict [(''mappings'', JDict []), (''settings'', DEFAULT_SETTINGS)]"

text \<open>
  \<open>data\<close> is \<open>self._data\<close>; \<open>disk\<close> is the file at \<open>self._path\<close>, \<open>None\<close> when the path
  does not exist.
\<close>

record 'f ConfigManager =
  data :: json
  disk :: "'f option"

text \<open>
  \<open>save\<close> raises \<open>OSError\<close> when the file cannot be written, and leaves the file as it
  was.
\<close>

definition save :: "'f platform \<Rightarrow> 'f ConfigManager \<Rightarrow> py_error + 'f ConfigManager" where
  "save p cm =
     (if writable p then Inr (cm\<lparr>disk := Some (json_dump p (data cm))\<rparr>) else Inl OSError)"

text \<open>
  The last two statements of \<open>load\<close>: the default configuration, then \<open>save\<close>. They
  stand after the \<open>try\<close>, so an \<open>OSError\<close> of this \<open>save\<close> is not caught.
\<close>

definition load_default :: "'f platform \<Rightarrow> 'f ConfigManager \<Rightarrow> py_error + 'f ConfigManager" where
  "load_default p cm = save p (cm\<lparr>data := DEFAULT_CONFIG\<rparr>)"

text \<open>The body of the \<open>try\<close> of \<open>load\<close>, for a file with contents \<open>f\<close>.\<close>

definition load_try :: "'f platform \<Rightarrow> 'f \<Rightarrow> 'f ConfigManager \<Rightarrow> py_error + 'f ConfigManager" where
  "load_try p f cm =
     bindE (json_load p f) (\<lambda>d0.
     bindE (py_contains ''mappings'' d0) (\<lambda>has_m.
     bindE (if \<not> has_m then py_setitem d0 ''mappings'' (JDict []) else Inr d0) (\<lambda>d1.
     bindE (py_contains ''settings'' d1) (\<lambda>has_s.
     bindE (if \<not> has_s then py_setitem d1 ''settings'' DEFAULT_SETTINGS else Inr d1) (\<lambda>d2.
     Inr (cm\<lparr>data := d2\<rparr>))))))"

text \<open>\<open>except (json.JSONDecodeError, OSError)\<close>: every other exception propagates.\<close>

definition load :: "'f platform \<Rightarrow> 'f ConfigManager \<Rightarrow> py_error + 'f ConfigManager" where
  "load p cm =
     (case disk cm of
        None \<Rightarrow> load_default p cm
      | Some f \<Rightarrow>
          (case load_try p f cm of
             Inr cm' \<Rightarrow> Inr cm'
           | Inl e \<Rightarrow>
               if e = JSONDecodeError \<or> e = OSError then load_default p cm
               else Inl e))"

text \<open>\<open>ConfigManager(config_path)\<close> on a disk holding \<open>file\<close>.\<close>

definition ConfigManager_init :: "'f platform \<Rightarrow> 'f option \<Rightarrow> py_error + 'f ConfigManager" where
  "ConfigManager_init p file = load p \<lparr>data = JDict [], disk = file\<rparr>"

definition get_mappings :: "'f ConfigManager \<Rightarrow> py_error + json" where
  "get_mappings cm = bindE (py_get (data cm) ''mappings'' (JDict [])) py_dict"

text \<open>
  \<open>self._data["mappings"][key] = {"x": x, "y": y}\<close> changes the inner dict in place; the
  model writes the changed dict back under \<open>"mappings"\<close>.
\<close>

definition set_mapping ::
  "'f platform \<Rightarrow> string \<Rightarrow> int \<Rightarrow> int \<Rightarrow> 'f ConfigManager \<Rightarrow> py_error + 'f ConfigManager" where
  "set_mapping p key x y cm =
     bindE (py_getitem (data cm) ''mappings'') (\<lambda>m.
     bindE (py_setitem m key (JDict [(''x'', JInt x), (''y'', JInt y)])) (\<lambda>m'.
     bindE (py_setitem (data cm) ''mappings'' m') (\<lambda>d'.
     save p (cm\<lparr>data := d'\<rparr>))))"

definition get_mapping :: "string \<Rightarrow> 'f ConfigManager \<Rightarrow> py_error + (json \<times> json) option" where
  "get_mapping key cm =
     bindE (py_getitem (data cm) ''mappings'') (\<lambda>ms.
     bindE (py_get ms key JNull) (\<lambda>m.
     if truthy m then
       bindE (py_getitem m ''x'') (\<lambda>x.
       bindE (py_getitem m ''y'') (\<lambda>y. Inr (Some (x, y))))
     else Inr None))"

definition get_setting :: "string \<Rightarrow> json \<Rightarrow> 'f ConfigManager \<Rightarrow> py_error + json" where
  "get_setting key dflt cm =
     bindE (py_get (data cm) ''settings'' (JDict [])) (\<lambda>s. py_get s key dflt)"

section \<open>state\_machine.py\<close>

datatype AppState = NORMAL | CONFIG_WAIT_KEY | CONFIG_WAIT_CLICK | DISABLED

fun VALID_TRANSITIONS :: "AppState \<Rightarrow> AppState set" where
  "VALID_TRANSITIONS NORMAL = {CONFIG_WAIT_KEY, DISABLED}"
| "VALID_TRANSITIONS CONFIG_WAIT_KEY = {CONFIG_WAIT_CLICK, NORMAL}"
| "VALID_TRANSITIONS CONFIG_WAIT_CLICK = {NORMAL}"
| "VALID_TRANSITIONS DISABLED = {NORMAL}"

record StateMachine =
  state :: AppState

text \<open>
  \<open>transition\<close> gives the returned bool, the arguments of the \<open>state_changed\<close> signals
  it emitted, and the machine afterwards.
\<close>

definition transition :: "AppState \<Rightarrow> StateMachine \<Rightarrow> bool \<times> AppState list \<times> StateMachine" where
  "transition new_state sm =
     (if new_state = state sm then (True, [], sm)
      else if new_state \<notin> VALID_TRANSITIONS (state sm) then (False, [], sm)
      else (True, [new_state], sm\<lparr>state := new_state\<rparr>))"

definition is_normal :: "StateMachine \<Rightarrow> bool" where
  "is_normal sm = (state sm = NORMAL)"

definition is_disabled :: "StateMachine \<Rightarrow> bool" where
  "is_disabled sm = (state sm = DISABLED)"

section \<open>input\_listener.py: the one-shot mouse capture\<close>

datatype Button = Button_left | Button_middle | Button_right | Button_unknown

text \<open>
  \<open>active\<close> is \<open>self._active\<close>; \<open>listener\<close> is \<open>self._listener\<close>: \<open>None\<close>, or a pynput
  listener that is running (\<open>Some True\<close>) or has stopped (\<open>Some False\<close>).
\<close>

record MouseClickCapture =
  active :: bool
  listener :: "bool option"

definition start :: "MouseClickCapture \<Rightarrow> MouseClickCapture" where
  "start mc = (if active mc then mc else mc\<lparr>active := True, listener := Some True\<rparr>)"

definition stop :: "MouseClickCapture \<Rightarrow> MouseClickCapture" where
  "stop mc = mc\<lparr>active := False, listener := None\<rparr>"

text \<open>
  \<open>_on_click\<close> gives its return value (\<open>Some False\<close> for \<open>return False\<close>, \<open>None\<close> when it
  falls off the end), the arguments of the \<open>mouse_clicked\<close> signal if it emitted one, and
  the capture afterwards.
\<close>

definition on_click ::
  "int \<Rightarrow> int \<Rightarrow> Button \<Rightarrow> bool \<Rightarrow> MouseClickCapture \<Rightarrow> bool option \<times> (int \<times> int) option \<times> MouseClickCapture" where
  "on_click x y button pressed mc =
     (if \<not> active mc then (Some False, None, mc)
      else if button = Button_left \<and> pressed then (Some False, Some (x, y), mc\<lparr>active := False\<rparr>)
      else (None, None, mc))"

text \<open>
  pynput calls the callback for every button event while the listener runs, and stops
  the listener when the callback returns \<open>False\<close>. \<open>deliver\<close> is one button event,
  \<open>feed\<close> a sequence of them; both give the signals emitted.
\<close>

type_synonym mouse_event = "int \<times> int \<times> Button \<times> bool"

fun deliver :: "mouse_event \<Rightarrow> MouseClickCapture \<Rightarrow> (int \<times> int) option \<times> MouseClickCapture" where
  "deliver (x, y, button, pressed) mc =
     (if listener mc = Some True then
        (case on_click x y button pressed mc of
           (ret, emitted, mc') \<Rightarrow>
             (emitted, if ret = Some False then mc'\<lparr>listener := Some False\<rparr> else mc'))
      else (None, mc))"

fun feed :: "mouse_event list \<Rightarrow> MouseClickCapture \<Rightarrow> (int \<times> int) list \<times> MouseClickCapture" where
  "feed [] mc = ([], mc)"
| "feed (ev # evs) mc =
     (case deliver ev mc of
        (emitted, mc') \<Rightarrow>
          (case feed evs mc' of
             (rest, mc'') \<Rightarrow> ((case emitted of None \<Rightarrow> [] | Some xy \<Rightarrow> [xy]) @ rest, mc'')))"

fun left_press :: "mouse_event \<Rightarrow> bool" where
  "left_press (x, y, button, pressed) = (button = Button_left \<and> pressed)"

section \<open>action\_executor.py\<close>

text \<open>
  The pynput mouse controller \<open>_mouse\<close>: where the pointer is, and the positions at which
  a left click was issued, oldest first.
\<close>

record Mouse =
  position :: "int \<times> int"
  clicks :: "(int \<times> int) list"

definition execute_click :: "int \<Rightarrow> int \<Rightarrow> bool \<Rightarrow> Mouse \<Rightarrow> Mouse" where
  "execute_click x y restore_position m =
     (let original = position m;
          m1 = m\<lparr>position := (x, y)\<rparr>;
          m2 = m1\<lparr>clicks := clicks m1 @ [position m1]\<rparr>
      in if restore_position then m2\<lparr>position := original\<rparr> else m2)"

text \<open>
  The \<open>try\<close> covers \<open>window_title.lower()\<close> as well: a title that is not a str raises
  \<open>AttributeError\<close> there, which \<open>except Exception\<close> turns into \<open>True\<close>.
\<close>

definition is_target_window_foreground :: "'f platform \<Rightarrow> json \<Rightarrow> bool" where
  "is_target_window_foreground p window_title =
     (if \<not> HAS_WIN32 p then True
      else
        (case foreground_title p of
           Inl e \<Rightarrow> True
         | Inr fg_title \<Rightarrow>
             (case window_title of
                JStr t \<Rightarrow> sublist (lower p t) (lower p fg_title)
              | _ \<Rightarrow> True)))"

text \<open>
  A coordinate as pynput takes it: an int. What pynput does with any other value is
  outside the model.
\<close>

fun py_int :: "json \<Rightarrow> py_error + int" where
  "py_int (JInt i) = Inr i"
| "py_int v = Inl Unmodelled"

section \<open>ui.py: what the controller shows in the window\<close>

text \<open>
  The texts handed to \<open>set_status\<close>, one constructor for each f-string of \<open>main.py\<close>
  with the values it formats.
\<close>

datatype status_msg =
    Ready
  | KeyCaptured string
  | ExecutedClick int int string
  | MappingSaved string int int
  | EnableFirst
  | PressKey
  | SystemEnabled
  | SystemDisabled

text \<open>
  \<open>status\<close> is the text of the status bar, \<open>badge\<close> the state that \<open>update_state\<close> was
  last called with (the badge and the buttons follow from it), \<open>table\<close> the rows of the
  mapping table.
\<close>

record MainWindow =
  status :: status_msg
  badge :: AppState
  table :: "(string \<times> json \<times> json) list"

fun table_rows :: "(string \<times> json) list \<Rightarrow> py_error + (string \<times> json \<times> json) list" where
  "table_rows [] = Inr []"
| "table_rows ((key, coords) # rest) =
     bindE (py_getitem coords ''x'') (\<lambda>x.
     bindE (py_getitem coords ''y'') (\<lambda>y.
     bindE (table_rows rest) (\<lambda>rows. Inr ((key, x, y) # rows))))"

definition refresh_mappings :: "json \<Rightarrow> MainWindow \<Rightarrow> py_error + MainWindow" where
  "refresh_mappings mappings w =
     (case mappings of
        JDict d \<Rightarrow> bindE (table_rows (sort_key fst d)) (\<lambda>rows. Inr (w\<lparr>table := rows\<rparr>))
      | _ \<Rightarrow> Inl AttributeError)"

section \<open>main.py: the controller\<close>

text \<open>
  \<open>mouse\<close> is the module-level \<open>_mouse\<close> of \<open>action_executor.py\<close>. The mapping manager
  only forwards to \<open>config\<close> and emits \<open>mappings_changed\<close>, whose one slot is
  \<open>_refresh_table\<close>.
\<close>

record 'f AppController =
  config :: "'f ConfigManager"
  state_machine :: StateMachine
  mouse_capture :: MouseClickCapture
  window :: MainWindow
  pending_key :: "string option"
  mouse :: Mouse

definition set_status :: "status_msg \<Rightarrow> 'f AppController \<Rightarrow> 'f AppController" where
  "set_status msg c = c\<lparr>window := (window c)\<lparr>status := msg\<rparr>\<rparr>"

definition on_state_changed :: "AppState \<Rightarrow> 'f AppController \<Rightarrow> 'f AppController" where
  "on_state_changed new_state c = c\<lparr>window := (window c)\<lparr>badge := new_state\<rparr>\<rparr>"

text \<open>
  \<open>self.state_machine.transition(new_state)\<close>: each \<open>state_changed\<close> signal runs the slot
  \<open>_on_state_changed\<close>.
\<close>

definition sm_transition :: "AppState \<Rightarrow> 'f AppController \<Rightarrow> bool \<times> 'f AppController" where
  "sm_transition new_state c =
     (case transition new_state (state_machine c) of
        (ok, emitted, sm) \<Rightarrow>
          (ok, foldl (\<lambda>c' s. on_state_changed s c') (c\<lparr>state_machine := sm\<rparr>) emitted))"

definition refresh_table :: "'f AppController \<Rightarrow> py_error + 'f AppController" where
  "refresh_table c =
     bindE (get_mappings (config c)) (\<lambda>ms.
     bindE (refresh_mappings ms (window c)) (\<lambda>w. Inr (c\<lparr>window := w\<rparr>)))"

definition add_mapping ::
  "'f platform \<Rightarrow> string \<Rightarrow> int \<Rightarrow> int \<Rightarrow> 'f AppController \<Rightarrow> py_error + 'f AppController" where
  "add_mapping p key x y c =
     bindE (set_mapping p key x y (config c)) (\<lambda>cfg. refresh_table (c\<lparr>config := cfg\<rparr>))"

definition on_key_pressed ::
  "'f platform \<Rightarrow> string \<Rightarrow> 'f AppController \<Rightarrow> py_error + 'f AppController" where
  "on_key_pressed p key_name c =
     (let st = state (state_machine c) in
      if st = CONFIG_WAIT_KEY then
        (let c1 = c\<lparr>pending_key := Some key_name\<rparr>;
             c2 = snd (sm_transition CONFIG_WAIT_CLICK c1);
             c3 = set_status (KeyCaptured key_name) c2
         in Inr (c3\<lparr>mouse_capture := start (mouse_capture c3)\<rparr>))
      else if st = NORMAL then
        bindE (get_mapping key_name (config c)) (\<lambda>mapping.
        case mapping of
          None \<Rightarrow> Inr c
        | Some (x, y) \<Rightarrow>
            bindE (get_setting ''require_foreground_window'' (JBool False) (config c)) (\<lambda>req.
            bindE (if truthy req then
                     bindE (get_setting ''target_window_title'' (JStr ''Valeton'') (config c))
                       (\<lambda>title. Inr (is_target_window_foreground p title))
                   else Inr True) (\<lambda>focused.
            if \<not> focused then Inr c
            else
              bindE (get_setting ''restore_mouse_position'' (JBool True) (config c)) (\<lambda>restore.
              bindE (py_int x) (\<lambda>xi.
              bindE (py_int y) (\<lambda>yi.
              Inr (set_status (ExecutedClick xi yi key_name)
                    (c\<lparr>mouse := execute_click xi yi (truthy restore) (mouse c)\<rparr>))))))))
      else Inr c)"

definition on_mouse_clicked ::
  "'f platform \<Rightarrow> int \<Rightarrow> int \<Rightarrow> 'f AppController \<Rightarrow> py_error + 'f AppController" where
  "on_mouse_clicked p x y c =
     (if state (state_machine c) \<noteq> CONFIG_WAIT_CLICK then Inr c
      else
        (let key = pending_key c;
             c1 = c\<lparr>pending_key := None\<rparr>
         in bindE (case key of
                     None \<Rightarrow> Inr c1
                   | Some k \<Rightarrow>
                       bindE (add_mapping p k x y c1) (\<lambda>c2.
                       Inr (set_status (MappingSaved k x y) c2)))
              (\<lambda>c3. Inr (snd (sm_transition NORMAL c3)))))"

definition on_add_key :: "'f AppController \<Rightarrow> 'f AppController" where
  "on_add_key c =
     (if state (state_machine c) = DISABLED then set_status EnableFirst c
      else
        (case sm_transition CONFIG_WAIT_KEY c of
           (ok, c') \<Rightarrow> if ok then set_status PressKey c' else c'))"

definition on_toggle_system :: "'f AppController \<Rightarrow> 'f AppController" where
  "on_toggle_system c =
     (if is_disabled (state_machine c) then
        set_status SystemEnabled (snd (sm_transition NORMAL c))
      else if is_normal (state_machine c) then
        set_status SystemDisabled (snd (sm_transition DISABLED c))
      else c)"

section \<open>The data model of the persisted document\<close>

text \<open>
  A binding is a dict with an int under \<open>"x"\<close> and under \<open>"y"\<close>; the binding set is a
  dict of bindings; the settings record has two bools and a str; the document has both
  under \<open>"mappings"\<close> and \<open>"settings"\<close>.
\<close>

fun is_int :: "json \<Rightarrow> bool" where
  "is_int (JInt i) = True"
| "is_int v = False"

fun is_bool :: "json \<Rightarrow> bool" where
  "is_bool (JBool b) = True"
| "is_bool v = False"

fun is_str :: "json \<Rightarrow> bool" where
  "is_str (JStr s) = True"
| "is_str v = False"

definition field_is :: "(json \<Rightarrow> bool) \<Rightarrow> string \<Rightarrow> (string \<times> json) list \<Rightarrow> bool" where
  "field_is P k d = (case map_of d k of None \<Rightarrow> False | Some v \<Rightarrow> P v)"

fun wt_binding :: "json \<Rightarrow> bool" where
  "wt_binding (JDict d) = (field_is is_int ''x'' d \<and> field_is is_int ''y'' d)"
| "wt_binding v = False"

fun wt_mappings :: "json \<Rightarrow> bool" where
  "wt_mappings (JDict ms) = list_all (\<lambda>kv. wt_binding (snd kv)) ms"
| "wt_mappings v = False"

fun wt_settings :: "json \<Rightarrow> bool" where
  "wt_settings (JDict s) =
     (field_is is_bool ''restore_mouse_position'' s \<and>
      field_is is_bool ''require_foreground_window'' s \<and>
      field_is is_str ''target_window_title'' s)"
| "wt_settings v = False"


fun wt_document :: "json \<Rightarrow> bool" where
  "wt_document (JDict d) = (field_is wt_mappings ''mappings'' d \<and> field_is wt_settings ''settings'' d)"
| "wt_document v = False"

section \<open>A platform for closed examples\<close>

text \<open>
  File contents are either text that is not JSON or the text of a document, which
  \<open>json.load\<close> reads back; \<open>lower\<close> acts on the ASCII letters.
\<close>

datatype file_text = Garbage | Doc json

fun text_load :: "file_text \<Rightarrow> py_error + json" where
  "text_load Garbage = Inl JSONDecodeError"
| "text_load (Doc d) = Inr d"

definition ascii_lower :: "char \<Rightarrow> char" where
  "ascii_lower c =
     (if CHR ''A'' \<le> c \<and> c \<le> CHR ''Z'' then char_of (of_char c + (32 :: nat)) else c)"

definition example_platform :: "file_text platform" where
  "example_platform =
     \<lparr>json_load = text_load, json_dump = Doc, lower = map ascii_lower,
      HAS_WIN32 = True, foreground_title = Inr ''VALETON GP-200'', writable = True\<rparr>"

definition example_controller :: "file_text AppController" where
  "example_controller =
     \<lparr>config = \<lparr>data = DEFAULT_CONFIG, disk = Some (Doc DEFAULT_CONFIG)\<rparr>,
      state_machine = \<lparr>state = NORMAL\<rparr>,
      mouse_capture = \<lparr>active = False, listener = None\<rparr>,
      window = \<lparr>status = Ready, badge = NORMAL, table = []\<rparr>,
      pending_key = None,
      mouse = \<lparr>position = (0, 0), clicks = []\<rparr>\<rparr>"

definition example_document :: json where
  "example_document = JDict
     [(''mappings'', JDict [(''f1'', JDict [(''x'', JInt 100), (''y'', JInt 200)])]),
      (''settings'', JDict
         [(''restore_mouse_position'', JBool True),
          (''require_foreground_window'', JBool True),
          (''target_window_title'', JStr ''Valeton'')])]"

definition example_bound_controller :: "file_text AppController" where
  "example_bound_controller =
     example_controller\<lparr>config := \<lparr>data = example_document, disk = Some (Doc example_document)\<rparr>\<rparr>"





section \<open>The state machine\<close>

text \<open>
  C1. For every current state and every target \<open>T\<close>, \<open>transition(T)\<close> returns \<open>True\<close>
  exactly when \<open>T\<close> is the current state or one of its allowed successors. The stored
  state changes exactly when the call succeeds with a target other than the current state,
  and then it is \<open>T\<close> and one \<open>state_changed\<close> signal carries it; a failed call leaves the
  machine as it was and emits nothing. The call returns a bool in every case: there is no
  branch that raises.
\<close>

theorem transition_correct:
  "transition T sm = (ok, emitted, sm') \<Longrightarrow>
     ok = (T = state sm \<or> T \<in> VALID_TRANSITIONS (state sm)) \<and>
     (state sm' \<noteq> state sm) = (ok \<and> T \<noteq> state sm) \<and>
     state sm' = (if ok then T else state sm) \<and>
     emitted = (if ok \<and> T \<noteq> state sm then [T] else []) \<and>
     (\<not> ok \<longrightarrow> sm' = sm)"
  by (auto simp: transition_def split: if_splits)

theorem transition_correct_witness:
  "transition DISABLED \<lparr>state = CONFIG_WAIT_KEY\<rparr> = (False, [], \<lparr>state = CONFIG_WAIT_KEY\<rparr>) \<and>
   DISABLED \<noteq> CONFIG_WAIT_KEY \<and> DISABLED \<notin> VALID_TRANSITIONS CONFIG_WAIT_KEY \<and>
   transition NORMAL \<lparr>state = CONFIG_WAIT_KEY\<rparr> = (True, [NORMAL], \<lparr>state = NORMAL\<rparr>) \<and>
   NORMAL \<in> VALID_TRANSITIONS CONFIG_WAIT_KEY"
proof -
  have h1: "transition DISABLED \<lparr>state = CONFIG_WAIT_KEY\<rparr> = (False, [], \<lparr>state = CONFIG_WAIT_KEY\<rparr>)"
    by (simp add: transition_def)
  have h2: "transition NORMAL \<lparr>state = CONFIG_WAIT_KEY\<rparr> = (True, [NORMAL], \<lparr>state = NORMAL\<rparr>)"
    by (simp add: transition_def)
  from transition_correct [OF h1] transition_correct [OF h2] h1 h2 show ?thesis by simp
qed

section \<open>The controller's reactions\<close>

lemma bindE_Inl [simp]: "bindE (Inl e) f = Inl e"
  by (simp add: bindE_def)

lemma bindE_Inr [simp]: "bindE (Inr x) f = f x"
  by (simp add: bindE_def)

lemma sm_transition_allowed:
  "T \<in> VALID_TRANSITIONS (state (state_machine c)) \<Longrightarrow> T \<noteq> state (state_machine c) \<Longrightarrow>
   sm_transition T c =
     (True, c\<lparr>state_machine := (state_machine c)\<lparr>state := T\<rparr>,
              window := (window c)\<lparr>badge := T\<rparr>\<rparr>)"
  by (simp add: sm_transition_def transition_def on_state_changed_def)

text \<open>
  C7. The toggle intent moves the machine from \<open>DISABLED\<close> to \<open>NORMAL\<close> and from
  \<open>NORMAL\<close> to \<open>DISABLED\<close>; in \<open>CONFIG_WAIT_KEY\<close> and in \<open>CONFIG_WAIT_CLICK\<close> it
  changes nothing at all, the state included.
\<close>

theorem toggle_system:
  "(state (state_machine c) = DISABLED \<longrightarrow> state (state_machine (on_toggle_system c)) = NORMAL) \<and>
   (state (state_machine c) = NORMAL \<longrightarrow> state (state_machine (on_toggle_system c)) = DISABLED) \<and>
   (state (state_machine c) = CONFIG_WAIT_KEY \<or> state (state_machine c) = CONFIG_WAIT_CLICK \<longrightarrow>
      on_toggle_system c = c)"
  by (simp add: on_toggle_system_def is_disabled_def is_normal_def sm_transition_allowed
      set_status_def)

theorem toggle_system_witness:
  "state (state_machine (example_controller\<lparr>state_machine := \<lparr>state = DISABLED\<rparr>\<rparr>)) = DISABLED \<and>
   state (state_machine (on_toggle_system
      (example_controller\<lparr>state_machine := \<lparr>state = DISABLED\<rparr>\<rparr>))) = NORMAL \<and>
   state (state_machine example_controller) = NORMAL \<and>
   state (state_machine (on_toggle_system example_controller)) = DISABLED \<and>
   state (state_machine (example_controller\<lparr>state_machine := \<lparr>state = CONFIG_WAIT_KEY\<rparr>\<rparr>)) =
     CONFIG_WAIT_KEY \<and>
   on_toggle_system (example_controller\<lparr>state_machine := \<lparr>state = CONFIG_WAIT_KEY\<rparr>\<rparr>) =
     example_controller\<lparr>state_machine := \<lparr>state = CONFIG_WAIT_KEY\<rparr>\<rparr> \<and>
   state (state_machine (example_controller\<lparr>state_machine := \<lparr>state = CONFIG_WAIT_CLICK\<rparr>\<rparr>)) =
     CONFIG_WAIT_CLICK \<and>
   on_toggle_system (example_controller\<lparr>state_machine := \<lparr>state = CONFIG_WAIT_CLICK\<rparr>\<rparr>) =
     example_controller\<lparr>state_machine := \<lparr>state = CONFIG_WAIT_CLICK\<rparr>\<rparr>"
  using toggle_system [of "example_controller\<lparr>state_machine := \<lparr>state = DISABLED\<rparr>\<rparr>"]
    toggle_system [of example_controller]
    toggle_system [of "example_controller\<lparr>state_machine := \<lparr>state = CONFIG_WAIT_KEY\<rparr>\<rparr>"]
    toggle_system [of "example_controller\<lparr>state_machine := \<lparr>state = CONFIG_WAIT_CLICK\<rparr>\<rparr>"]
  by (simp add: example_controller_def)

text \<open>
  C6. In \<open>CONFIG_WAIT_KEY\<close> a key-press event with any key name returns normally,
  records that name as the pending key, moves the machine to \<open>CONFIG_WAIT_CLICK\<close> and
  starts the mouse capture: the capture is active afterwards, with a running listener
  if it was not active before. The store and the pointer are untouched.
\<close>

theorem on_key_pressed_config_wait_key:
  "state (state_machine c) = CONFIG_WAIT_KEY \<Longrightarrow>
   (\<exists>c'. on_key_pressed p key_name c = Inr c' \<and>
      pending_key c' = Some key_name \<and>
      state (state_machine c') = CONFIG_WAIT_CLICK \<and>
      mouse_capture c' = start (mouse_capture c) \<and>
      active (mouse_capture c') \<and>
      (\<not> active (mouse_capture c) \<longrightarrow> listener (mouse_capture c') = Some True) \<and>
      config c' = config c \<and> mouse c' = mouse c)"
  by (simp add: on_key_pressed_def sm_transition_allowed set_status_def start_def)

theorem on_key_pressed_config_wait_key_witness:
  "state (state_machine (example_controller\<lparr>state_machine := \<lparr>state = CONFIG_WAIT_KEY\<rparr>\<rparr>)) =
     CONFIG_WAIT_KEY \<and>
   on_key_pressed example_platform ''f1''
       (example_controller\<lparr>state_machine := \<lparr>state = CONFIG_WAIT_KEY\<rparr>\<rparr>) =
     Inr (example_controller
       \<lparr>state_machine := \<lparr>state = CONFIG_WAIT_CLICK\<rparr>,
        mouse_capture := \<lparr>active = True, listener = Some True\<rparr>,
        window := \<lparr>status = KeyCaptured ''f1'', badge = CONFIG_WAIT_CLICK, table = []\<rparr>,
        pending_key := Some ''f1''\<rparr>)"
proof -
  have h: "state (state_machine (example_controller\<lparr>state_machine := \<lparr>state = CONFIG_WAIT_KEY\<rparr>\<rparr>)) =
     CONFIG_WAIT_KEY"
    by (simp add: example_controller_def)
  from on_key_pressed_config_wait_key [OF h, of example_platform "''f1''"]
  obtain c' where c': "on_key_pressed example_platform ''f1''
       (example_controller\<lparr>state_machine := \<lparr>state = CONFIG_WAIT_KEY\<rparr>\<rparr>) = Inr c'"
    by blast
  have "on_key_pressed example_platform ''f1''
       (example_controller\<lparr>state_machine := \<lparr>state = CONFIG_WAIT_KEY\<rparr>\<rparr>) =
     Inr (example_controller
       \<lparr>state_machine := \<lparr>state = CONFIG_WAIT_CLICK\<rparr>,
        mouse_capture := \<lparr>active = True, listener = Some True\<rparr>,
        window := \<lparr>status = KeyCaptured ''f1'', badge = CONFIG_WAIT_CLICK, table = []\<rparr>,
        pending_key := Some ''f1''\<rparr>)"
    by (simp add: on_key_pressed_def example_controller_def sm_transition_def transition_def
        on_state_changed_def set_status_def start_def)
  with h c' show ?thesis by simp
qed

section \<open>Dispatch\<close>

lemma get_mapping_unbound:
  "data cm = JDict d \<Longrightarrow> map_of d ''mappings'' = Some (JDict ms) \<Longrightarrow> map_of ms key = None \<Longrightarrow>
   get_mapping key cm = Inr None"
  by (simp add: get_mapping_def)

text \<open>
  C8. In \<open>NORMAL\<close>, a key-press whose key name is not a key of the stored mappings
  returns normally and leaves the whole controller as it was: no click is issued and
  the machine state does not change.
\<close>

theorem on_key_pressed_unmapped:
  "state (state_machine c) = NORMAL \<Longrightarrow> data (config c) = JDict d \<Longrightarrow>
   map_of d ''mappings'' = Some (JDict ms) \<Longrightarrow> map_of ms key_name = None \<Longrightarrow>
   on_key_pressed p key_name c = Inr c"
  by (simp add: on_key_pressed_def get_mapping_unbound)

theorem on_key_pressed_unmapped_witness:
  "state (state_machine example_controller) = NORMAL \<and>
   data (config example_controller) = DEFAULT_CONFIG \<and>
   map_of [(''mappings'', JDict []), (''settings'', DEFAULT_SETTINGS)] ''mappings'' = Some (JDict []) \<and>
   map_of ([] :: (string \<times> json) list) ''f1'' = None \<and>
   on_key_pressed example_platform ''f1'' example_controller = Inr example_controller \<and>
   clicks (mouse example_controller) = []"
proof -
  have h1: "state (state_machine example_controller) = NORMAL"
    by (simp add: example_controller_def)
  have h2: "data (config example_controller) =
      JDict [(''mappings'', JDict []), (''settings'', DEFAULT_SETTINGS)]"
    by (simp add: example_controller_def DEFAULT_CONFIG_def)
  have h3: "map_of [(''mappings'', JDict []), (''settings'', DEFAULT_SETTINGS)] ''mappings'' =
      Some (JDict [])"
    by simp
  have h4: "map_of ([] :: (string \<times> json) list) ''f1'' = None"
    by simp
  from on_key_pressed_unmapped [OF h1 h2 h3 h4, of example_platform] h1 h2 h3
  show ?thesis by (simp add: DEFAULT_CONFIG_def example_controller_def)
qed

section \<open>The one-shot mouse capture\<close>

lemma feed_not_running:
  "listener mc \<noteq> Some True \<Longrightarrow> feed evs mc = ([], mc)"
  by (induction evs) (auto split: prod.splits)

lemma feed_running:
  "active mc \<Longrightarrow> listener mc = Some True \<Longrightarrow>
   feed evs mc =
     (case find left_press evs of
        None \<Rightarrow> ([], mc)
      | Some (x, y, button, pressed) \<Rightarrow> ([(x, y)], mc\<lparr>active := False, listener := Some False\<rparr>))"
proof (induction evs)
  case Nil
  then show ?case by simp
next
  case (Cons ev evs)
  obtain x y button pressed where ev: "ev = (x, y, button, pressed)"
    by (cases ev) auto
  show ?case
  proof (cases "left_press ev")
    case True
    with Cons.prems ev show ?thesis
      by (simp add: on_click_def feed_not_running)
  next
    case False
    with Cons ev show ?thesis
      by (auto simp: on_click_def)
  qed
qed

text \<open>
  C9. After \<open>start\<close> on an inactive capture, whatever button events follow: the capture
  emits the coordinates of the first left-button press and is inactive from then on; if
  there is no left-button press it emits nothing and stays active. An event that is not
  a left-button press (a release, another button) makes \<open>_on_click\<close> return without a
  signal and without a change. At most one signal is emitted.
\<close>

theorem one_shot_capture:
  "\<not> active mc \<Longrightarrow>
   feed evs (start mc) =
     (case find left_press evs of
        None \<Rightarrow> ([], start mc)
      | Some (x, y, button, pressed) \<Rightarrow>
          ([(x, y)], (start mc)\<lparr>active := False, listener := Some False\<rparr>)) \<and>
   active (start mc) \<and>
   (\<forall>x y button pressed. \<not> left_press (x, y, button, pressed) \<longrightarrow>
      on_click x y button pressed (start mc) = (None, None, start mc)) \<and>
   length (fst (feed evs (start mc))) \<le> 1"
proof -
  assume inactive: "\<not> active mc"
  then have a: "active (start mc)" and l: "listener (start mc) = Some True"
    by (simp_all add: start_def)
  have f: "feed evs (start mc) =
     (case find left_press evs of
        None \<Rightarrow> ([], start mc)
      | Some (x, y, button, pressed) \<Rightarrow>
          ([(x, y)], (start mc)\<lparr>active := False, listener := Some False\<rparr>))"
    by (rule feed_running [OF a l])
  have "length (fst (feed evs (start mc))) \<le> 1"
    unfolding f by (simp split: option.splits)
  moreover have "\<forall>x y button pressed. \<not> left_press (x, y, button, pressed) \<longrightarrow>
      on_click x y button pressed (start mc) = (None, None, start mc)"
    using a by (simp add: on_click_def)
  ultimately show ?thesis using f a by blast
qed

theorem one_shot_capture_witness:
  "\<not> active \<lparr>active = False, listener = None\<rparr> \<and>
   feed [(5, 6, Button_right, True), (7, 8, Button_left, False), (100, 200, Button_left, True),
         (100, 200, Button_left, False), (300, 400, Button_left, True)]
     (start \<lparr>active = False, listener = None\<rparr>) =
   ([(100, 200)], \<lparr>active = False, listener = Some False\<rparr>)"
proof -
  let ?mc = "\<lparr>active = False, listener = None\<rparr>"
  let ?evs = "[(5, 6, Button_right, True), (7, 8, Button_left, False),
    (100, 200, Button_left, True), (100, 200, Button_left, False),
    (300, 400, Button_left, True)] :: mouse_event list"
  have h: "\<not> active ?mc"
    by simp
  from one_shot_capture [OF h, of ?evs]
  have f: "feed ?evs (start ?mc) =
     (case find left_press ?evs of
        None \<Rightarrow> ([], start ?mc)
      | Some (x, y, button, pressed) \<Rightarrow>
          ([(x, y)], (start ?mc)\<lparr>active := False, listener := Some False\<rparr>))"
    by (rule conjunct1)
  have r: "(case find left_press ?evs of
        None \<Rightarrow> ([], start ?mc)
      | Some (x, y, button, pressed) \<Rightarrow>
          ([(x, y)], (start ?mc)\<lparr>active := False, listener := Some False\<rparr>)) =
     ([(100, 200)], \<lparr>active = False, listener = Some False\<rparr>)"
    by (simp add: start_def)
  from f r have "feed ?evs (start ?mc) = ([(100, 200)], \<lparr>active = False, listener = Some False\<rparr>)"
    by (rule trans)
  with h show ?thesis
    by (rule conjI)
qed

section \<open>Dispatch of a bound key\<close>

lemma get_setting_dict:
  "data cm = JDict d \<Longrightarrow>
   (case map_of d ''settings'' of None \<Rightarrow> JDict [] | Some s \<Rightarrow> s) = JDict s \<Longrightarrow>
   get_setting k dflt cm = Inr (case map_of s k of None \<Rightarrow> dflt | Some v \<Rightarrow> v)"
  by (simp add: get_setting_def)

lemma get_setting_Inr_dict:
  assumes "get_setting k dflt cm = Inr v"
  shows "\<exists>d s. data cm = JDict d \<and>
    (case map_of d ''settings'' of None \<Rightarrow> JDict [] | Some s \<Rightarrow> s) = JDict s"
proof (cases "data cm")
  case (JDict d)
  let ?s = "case map_of d ''settings'' of None \<Rightarrow> JDict [] | Some s \<Rightarrow> s"
  from assms JDict have "py_get ?s k dflt = Inr v"
    by (simp add: get_setting_def)
  then obtain s where "?s = JDict s"
    by (cases ?s) simp_all
  with JDict show ?thesis by blast
qed (use assms in \<open>simp_all add: get_setting_def\<close>)

lemma get_setting_total:
  "get_setting k dflt cm = Inr v \<Longrightarrow> \<exists>v'. get_setting k' dflt' cm = Inr v'"
  using get_setting_Inr_dict get_setting_dict by blast

lemma on_key_pressed_bound:
  assumes "state (state_machine c) = NORMAL"
    and "get_mapping key_name (config c) = Inr (Some (JInt x, JInt y))"
    and "get_setting ''require_foreground_window'' (JBool False) (config c) = Inr req"
    and "get_setting ''target_window_title'' (JStr ''Valeton'') (config c) = Inr title"
    and "get_setting ''restore_mouse_position'' (JBool True) (config c) = Inr restore"
  shows "on_key_pressed p key_name c =
    Inr (if truthy req \<and> \<not> is_target_window_foreground p title then c
         else set_status (ExecutedClick x y key_name)
                (c\<lparr>mouse := execute_click x y (truthy restore) (mouse c)\<rparr>))"
  using assms by (simp add: on_key_pressed_def)

lemma clicks_execute_click:
  "clicks (execute_click x y r m) = clicks m @ [(x, y)]"
  by (simp add: execute_click_def Let_def)

text \<open>
  C4. Let the machine be in \<open>NORMAL\<close>, the pressed key bound to \<open>(x, y)\<close>,
  \<open>require_foreground_window\<close> true and the configured title the str \<open>t\<close>. The focus
  check is \<open>True\<close> when \<open>win32gui\<close> is missing or its lookup raises, and otherwise says
  whether the lower-cased \<open>t\<close> is a substring of the lower-cased title of the focused
  window. When the lookup gives a title that does not match, the key-press returns with
  the controller unchanged, so no click is issued; when the lookup fails, the click at
  \<open>(x, y)\<close> is issued.
\<close>

theorem foreground_gate:
  assumes "state (state_machine c) = NORMAL"
    and "get_mapping key_name (config c) = Inr (Some (JInt x, JInt y))"
    and "get_setting ''require_foreground_window'' (JBool False) (config c) = Inr (JBool True)"
    and "get_setting ''target_window_title'' (JStr ''Valeton'') (config c) = Inr (JStr t)"
  shows "is_target_window_foreground p (JStr t) =
      (if HAS_WIN32 p then
         (case foreground_title p of
            Inl e \<Rightarrow> True
          | Inr fg \<Rightarrow> sublist (lower p t) (lower p fg))
       else True) \<and>
    (HAS_WIN32 p \<and> foreground_title p = Inr fg \<and> \<not> sublist (lower p t) (lower p fg) \<longrightarrow>
       on_key_pressed p key_name c = Inr c) \<and>
    (\<not> HAS_WIN32 p \<or> foreground_title p = Inl e \<longrightarrow>
       (\<exists>c'. on_key_pressed p key_name c = Inr c' \<and>
          clicks (mouse c') = clicks (mouse c) @ [(x, y)]))"
proof -
  from assms(3) obtain restore where
    r: "get_setting ''restore_mouse_position'' (JBool True) (config c) = Inr restore"
    using get_setting_total by blast
  note run = on_key_pressed_bound [OF assms(1) assms(2) assms(3) assms(4) r, of p]
  have 1: "is_target_window_foreground p (JStr t) =
      (if HAS_WIN32 p then
         (case foreground_title p of
            Inl e \<Rightarrow> True
          | Inr fg \<Rightarrow> sublist (lower p t) (lower p fg))
       else True)"
    by (simp add: is_target_window_foreground_def split: sum.splits)
  have 2: "HAS_WIN32 p \<and> foreground_title p = Inr fg \<and> \<not> sublist (lower p t) (lower p fg) \<longrightarrow>
       on_key_pressed p key_name c = Inr c"
    by (simp add: run is_target_window_foreground_def)
  have 3: "\<not> HAS_WIN32 p \<or> foreground_title p = Inl e \<longrightarrow>
       (\<exists>c'. on_key_pressed p key_name c = Inr c' \<and>
          clicks (mouse c') = clicks (mouse c) @ [(x, y)])"
    by (auto simp: run is_target_window_foreground_def set_status_def clicks_execute_click)
  from 1 2 3 show ?thesis by blast
qed

theorem foreground_gate_witness:
  "state (state_machine example_bound_controller) = NORMAL \<and>
   get_mapping ''f1'' (config example_bound_controller) = Inr (Some (JInt 100, JInt 200)) \<and>
   get_setting ''require_foreground_window'' (JBool False) (config example_bound_controller) =
     Inr (JBool True) \<and>
   get_setting ''target_window_title'' (JStr ''Valeton'') (config example_bound_controller) =
     Inr (JStr ''Valeton'') \<and>
   is_target_window_foreground example_platform (JStr ''Valeton'') \<and>
   \<not> sublist (map ascii_lower ''Valeton'') (map ascii_lower ''Notepad'') \<and>
   on_key_pressed (example_platform\<lparr>foreground_title := Inr ''Notepad''\<rparr>) ''f1''
     example_bound_controller = Inr example_bound_controller \<and>
   (\<exists>c'. on_key_pressed (example_platform\<lparr>foreground_title := Inl OSError\<rparr>) ''f1''
            example_bound_controller = Inr c' \<and>
         clicks (mouse c') = [(100, 200)])"
proof -
  let ?c = example_bound_controller
  have h1: "state (state_machine ?c) = NORMAL"
    by (simp add: example_bound_controller_def example_controller_def)
  have h2: "get_mapping ''f1'' (config ?c) = Inr (Some (JInt 100, JInt 200))"
    by (simp add: example_bound_controller_def example_document_def get_mapping_def)
  have h3: "get_setting ''require_foreground_window'' (JBool False) (config ?c) = Inr (JBool True)"
    by (simp add: example_bound_controller_def example_document_def get_setting_def)
  have h4: "get_setting ''target_window_title'' (JStr ''Valeton'') (config ?c) = Inr (JStr ''Valeton'')"
    by (simp add: example_bound_controller_def example_document_def get_setting_def)
  have m: "sublist (map ascii_lower ''Valeton'') (map ascii_lower ''VALETON GP-200'')"
    by code_simp
  have n: "\<not> sublist (map ascii_lower ''Valeton'') (map ascii_lower ''Notepad'')"
    by code_simp
  have c0: "clicks (mouse ?c) = []"
    by (simp add: example_bound_controller_def example_controller_def)
  note g = foreground_gate [OF h1 h2 h3 h4]
  from g [of example_platform] m
  have 1: "is_target_window_foreground example_platform (JStr ''Valeton'')"
    by (simp add: example_platform_def)
  from g [of "example_platform\<lparr>foreground_title := Inr ''Notepad''\<rparr>" "''Notepad''"] n
  have 2: "on_key_pressed (example_platform\<lparr>foreground_title := Inr ''Notepad''\<rparr>) ''f1'' ?c = Inr ?c"
    by (simp add: example_platform_def)
  from g [of "example_platform\<lparr>foreground_title := Inl OSError\<rparr>" _ OSError] c0
  have 3: "\<exists>c'. on_key_pressed (example_platform\<lparr>foreground_title := Inl OSError\<rparr>) ''f1'' ?c = Inr c' \<and>
         clicks (mouse c') = [(100, 200)]"
    by (simp add: example_platform_def)
  from h1 h2 h3 h4 1 n 2 3 show ?thesis by blast
qed

section \<open>The frame of a dispatch\<close>






section \<open>Committing a binding\<close>










section \<open>Persistence\<close>

lemma wt_document_dict:
  assumes "wt_document v"
  obtains d ms s where "v = JDict d" and "map_of d ''mappings'' = Some (JDict ms)"
    and "list_all (\<lambda>kv. wt_binding (snd kv)) ms"
    and "map_of d ''settings'' = Some (JDict s)"
proof -
  from assms obtain d where d: "v = JDict d"
    by (cases v) simp_all
  from assms d obtain m where m: "map_of d ''mappings'' = Some m" "wt_mappings m"
    by (auto simp: field_is_def split: option.splits)
  then obtain ms where ms: "m = JDict ms" "list_all (\<lambda>kv. wt_binding (snd kv)) ms"
    by (cases m) simp_all
  from assms d obtain s0 where s0: "map_of d ''settings'' = Some s0" "wt_settings s0"
    by (auto simp: field_is_def split: option.splits)
  then obtain s where "s0 = JDict s"
    by (cases s0) simp_all
  with d m ms s0 that show thesis by blast
qed

lemma load_missing:
  "disk cm = None \<Longrightarrow> writable p \<Longrightarrow>
   load p cm = Inr (cm\<lparr>data := DEFAULT_CONFIG, disk := Some (json_dump p DEFAULT_CONFIG)\<rparr>)"
  by (simp add: load_def load_default_def save_def)

lemma load_malformed:
  "disk cm = Some f \<Longrightarrow> json_load p f = Inl JSONDecodeError \<Longrightarrow> writable p \<Longrightarrow>
   load p cm = Inr (cm\<lparr>data := DEFAULT_CONFIG, disk := Some (json_dump p DEFAULT_CONFIG)\<rparr>)"
  by (simp add: load_def load_try_def load_default_def save_def)

lemma load_object:
  "disk cm = Some f \<Longrightarrow> json_load p f = Inr (JDict d) \<Longrightarrow>
   load p cm =
     Inr (cm\<lparr>data := JDict
       (let d1 = (if ''mappings'' \<in> set (map fst d) then d
                  else AList.update ''mappings'' (JDict []) d)
        in if ''settings'' \<in> set (map fst d1) then d1
           else AList.update ''settings'' DEFAULT_SETTINGS d1)\<rparr>)"
  by (simp add: load_def load_try_def Let_def)

lemma load_unwritable_raises:
  "disk cm = Some f \<Longrightarrow> json_load p f = Inl OSError \<Longrightarrow> \<not> writable p \<Longrightarrow>
   load p cm = Inl OSError"
  by (simp add: load_def load_try_def load_default_def save_def)

lemma map_of_Some_key:
  "map_of d k = Some v \<Longrightarrow> k \<in> set (map fst d)"
  by (metis domI dom_map_of_conv_image_fst set_map)

text \<open>
  C5. For a well-typed document that the \<open>json\<close> module reads back as it wrote it, on
  a disk that can be written: \<open>save\<close> completes and puts the document on disk, and
  \<open>load\<close> after it gives the same configuration, as does a fresh \<open>ConfigManager\<close> on the
  saved file: the data, the mappings, every single mapping and every setting are the
  ones that were saved.
\<close>

theorem save_load_roundtrip:
  assumes "wt_document (data cm)"
    and "json_load p (json_dump p (data cm)) = Inr (data cm)"
    and "writable p"
  shows "\<exists>cm1. save p cm = Inr cm1 \<and>
    data cm1 = data cm \<and> disk cm1 = Some (json_dump p (data cm)) \<and>
    load p cm1 = Inr cm1 \<and>
    ConfigManager_init p (disk cm1) = Inr \<lparr>data = data cm, disk = disk cm1\<rparr> \<and>
    (\<exists>cm'. load p cm1 = Inr cm' \<and> data cm' = data cm \<and>
       get_mappings cm' = get_mappings cm \<and>
       (\<forall>k. get_mapping k cm' = get_mapping k cm) \<and>
       (\<forall>k dflt. get_setting k dflt cm' = get_setting k dflt cm))"
proof -
  let ?cm1 = "cm\<lparr>disk := Some (json_dump p (data cm))\<rparr>"
  from assms(1) obtain d ms s where d: "data cm = JDict d"
    and "map_of d ''mappings'' = Some (JDict ms)" and "map_of d ''settings'' = Some (JDict s)"
    by (rule wt_document_dict)
  then have keys: "''mappings'' \<in> set (map fst d)" "''settings'' \<in> set (map fst d)"
    by (auto dest: map_of_Some_key)
  from assms(3) have sv: "save p cm = Inr ?cm1"
    by (simp add: save_def)
  have dsk: "disk ?cm1 = Some (json_dump p (data cm))"
    by simp
  from assms(2) d have rd: "json_load p (json_dump p (data cm)) = Inr (JDict d)"
    by simp
  have 1: "load p ?cm1 = Inr ?cm1"
    using load_object [OF dsk rd] keys d by simp
  have dsk': "disk \<lparr>data = JDict [], disk = disk ?cm1\<rparr> = Some (json_dump p (data cm))"
    by simp
  have 2: "ConfigManager_init p (disk ?cm1) = Inr \<lparr>data = data cm, disk = disk ?cm1\<rparr>"
    unfolding ConfigManager_init_def
    using load_object [OF dsk' rd] keys d by simp
  have 3: "data ?cm1 = data cm" "get_mappings ?cm1 = get_mappings cm"
    "\<forall>k. get_mapping k ?cm1 = get_mapping k cm"
    "\<forall>k dflt. get_setting k dflt ?cm1 = get_setting k dflt cm"
    by (simp_all add: get_mappings_def get_mapping_def get_setting_def)
  from sv dsk 1 2 3 show ?thesis by blast
qed

theorem save_load_roundtrip_witness:
  "wt_document (data \<lparr>data = example_document, disk = None\<rparr>) \<and>
   json_load example_platform (json_dump example_platform example_document) = Inr example_document \<and>
   writable example_platform \<and>
   save example_platform \<lparr>data = example_document, disk = None\<rparr> =
     Inr \<lparr>data = example_document, disk = Some (Doc example_document)\<rparr> \<and>
   load example_platform \<lparr>data = example_document, disk = Some (Doc example_document)\<rparr> =
     Inr \<lparr>data = example_document, disk = Some (Doc example_document)\<rparr> \<and>
   ConfigManager_init example_platform (Some (Doc example_document)) =
     Inr \<lparr>data = example_document, disk = Some (Doc example_document)\<rparr>"
proof -
  let ?cm = "\<lparr>data = example_document, disk = None :: file_text option\<rparr>"
  let ?cm1 = "\<lparr>data = example_document, disk = Some (Doc example_document)\<rparr>"
  have h1: "wt_document (data ?cm)"
    by (simp add: example_document_def field_is_def)
  have h2: "json_load example_platform (json_dump example_platform (data ?cm)) = Inr (data ?cm)"
    by (simp add: example_platform_def)
  have h3: "writable example_platform"
    by (simp add: example_platform_def)
  have s: "save example_platform ?cm = Inr ?cm1"
    by (simp add: save_def example_platform_def)
  from save_load_roundtrip [OF h1 h2 h3] s
  have "load example_platform ?cm1 = Inr ?cm1 \<and>
    ConfigManager_init example_platform (disk ?cm1) = Inr \<lparr>data = data ?cm, disk = disk ?cm1\<rparr>"
    by auto
  with h1 h2 h3 s show ?thesis
    by simp
qed

lemma load_list_raises:
  "disk cm = Some f \<Longrightarrow> json_load p f = Inr (JList []) \<Longrightarrow> load p cm = Inl TypeError"
  by (simp add: load_def load_try_def)

lemma load_other_error_raises:
  "disk cm = Some f \<Longrightarrow> json_load p f = Inl UnicodeDecodeError \<Longrightarrow>
   load p cm = Inl UnicodeDecodeError"
  by (simp add: load_def load_try_def)

text \<open>
  C3. On a disk that can be written, a missing file (\<open>load_missing\<close>) and a file that
  is not JSON (\<open>load_malformed\<close>) give the default configuration, written to disk, and
  a dict lacking \<open>"mappings"\<close> or \<open>"settings"\<close> gets the default for the missing key only
  (\<open>load_object\<close>). But a file holding JSON that is not an object is not replaced by the
  default: for \<open>[]\<close> and for \<open>null\<close> the constructor of \<open>ConfigManager\<close> raises
  \<open>TypeError\<close>.
\<close>

theorem load_non_object_raises:
  "ConfigManager_init example_platform (Some (Doc (JList []))) = Inl TypeError \<and>
   ConfigManager_init example_platform (Some (Doc JNull)) = Inl TypeError"
  by (simp add: ConfigManager_init_def load_def load_try_def load_default_def save_def
      example_platform_def)

section \<open>A run of the configuration flow\<close>

text \<open>
  From the default configuration: the add intent, the key \<open>f1\<close>, a left press at
  \<open>(100, 200)\<close> seen by the capture, the captured click, and the key \<open>f1\<close> again,
  which clicks once at \<open>(100, 200)\<close> and puts the pointer back.
\<close>

lemma scenario_bind_then_dispatch:
  "on_key_pressed example_platform ''f1'' (on_add_key example_controller) =
     Inr (example_controller
       \<lparr>state_machine := \<lparr>state = CONFIG_WAIT_CLICK\<rparr>,
        mouse_capture := \<lparr>active = True, listener = Some True\<rparr>,
        window := \<lparr>status = KeyCaptured ''f1'', badge = CONFIG_WAIT_CLICK, table = []\<rparr>,
        pending_key := Some ''f1''\<rparr>) \<and>
   feed [(100, 200, Button_left, True)] \<lparr>active = True, listener = Some True\<rparr> =
     ([(100, 200)], \<lparr>active = False, listener = Some False\<rparr>) \<and>
   on_mouse_clicked example_platform 100 200
     (example_controller
       \<lparr>state_machine := \<lparr>state = CONFIG_WAIT_CLICK\<rparr>,
        mouse_capture := \<lparr>active = False, listener = Some False\<rparr>,
        window := \<lparr>status = KeyCaptured ''f1'', badge = CONFIG_WAIT_CLICK, table = []\<rparr>,
        pending_key := Some ''f1''\<rparr>) =
     Inr (example_controller
       \<lparr>config := \<lparr>data = JDict
            [(''mappings'', JDict [(''f1'', JDict [(''x'', JInt 100), (''y'', JInt 200)])]),
             (''settings'', DEFAULT_SETTINGS)],
          disk = Some (Doc (JDict
            [(''mappings'', JDict [(''f1'', JDict [(''x'', JInt 100), (''y'', JInt 200)])]),
             (''settings'', DEFAULT_SETTINGS)]))\<rparr>,
        mouse_capture := \<lparr>active = False, listener = Some False\<rparr>,
        window := \<lparr>status = MappingSaved ''f1'' 100 200, badge = NORMAL,
          table = [(''f1'', JInt 100, JInt 200)]\<rparr>\<rparr>) \<and>
   on_key_pressed example_platform ''f1''
     (example_controller
       \<lparr>config := \<lparr>data = JDict
            [(''mappings'', JDict [(''f1'', JDict [(''x'', JInt 100), (''y'', JInt 200)])]),
             (''settings'', DEFAULT_SETTINGS)],
          disk = Some (Doc (JDict
            [(''mappings'', JDict [(''f1'', JDict [(''x'', JInt 100), (''y'', JInt 200)])]),
             (''settings'', DEFAULT_SETTINGS)]))\<rparr>,
        mouse_capture := \<lparr>active = False, listener = Some False\<rparr>,
        window := \<lparr>status = MappingSaved ''f1'' 100 200, badge = NORMAL,
          table = [(''f1'', JInt 100, JInt 200)]\<rparr>\<rparr>) =
     Inr (example_controller
       \<lparr>config := \<lparr>data = JDict
            [(''mappings'', JDict [(''f1'', JDict [(''x'', JInt 100), (''y'', JInt 200)])]),
             (''settings'', DEFAULT_SETTINGS)],
          disk = Some (Doc (JDict
            [(''mappings'', JDict [(''f1'', JDict [(''x'', JInt 100), (''y'', JInt 200)])]),
             (''settings'', DEFAULT_SETTINGS)]))\<rparr>,
        mouse_capture := \<lparr>active = False, listener = Some False\<rparr>,
        window := \<lparr>status = ExecutedClick 100 200 ''f1'', badge = NORMAL,
          table = [(''f1'', JInt 100, JInt 200)]\<rparr>,
        mouse := \<lparr>position = (0, 0), clicks = [(100, 200)]\<rparr>\<rparr>)"
  by (simp add: example_controller_def example_platform_def DEFAULT_CONFIG_def
      DEFAULT_SETTINGS_def on_add_key_def on_key_pressed_def on_mouse_clicked_def
      sm_transition_def transition_def on_state_changed_def set_status_def start_def
      on_click_def add_mapping_def set_mapping_def save_def refresh_table_def
      get_mappings_def refresh_mappings_def get_mapping_def get_setting_def
      execute_click_def Let_def)

end
